theory Spec2Isabelle
  imports Main
begin

section \<open>The stack declaration of apigw-http-api-lambda-dynamodb-python-cdk\<close>

text \<open>
  The repository is one Python class, \<^verbatim>\<open>ApigwHttpApiLambdaDynamodbPythonCdkStack\<close>,
  whose \<^verbatim>\<open>__init__\<close> declares resources by calling constructors of the
  provisioning library, one after the other, and by calling a few mutating methods on the
  objects it has created. The embedding records what the code passes to the library: the
  stack is a state (the list of the constructs declared so far, in order, the grants, and
  the exception raised, if any), every constructor call appends a construct under its
  construct ID and returns a handle to it, and every mutating method updates the construct
  its handle names. A call the library refuses raises: the statements after it are not
  executed, and the stack keeps what was declared before. What the library later makes of
  a declaration (templates, generated names, the staging of the asset directory named by
  \<^verbatim>\<open>Code.from_asset\<close>) is not part of the source and is not modelled.
\<close>

subsection \<open>Enumerations of the library named by the source\<close>

text \<open>
  Each enumeration lists the member the source names and some of its siblings. The member
  \<^verbatim>\<open>ALL\<close> of \<^verbatim>\<open>FlowLogTrafficType\<close> is written \<open>ALL_TRAFFIC\<close>: \<open>ALL\<close> is
  a reserved word of the logic.
\<close>

datatype subnet_type = PRIVATE_ISOLATED | PRIVATE_WITH_EGRESS | PUBLIC

datatype retention_days = ONE_WEEK | ONE_MONTH | ONE_YEAR | INFINITE

datatype removal_policy = DESTROY | RETAIN | SNAPSHOT

datatype flow_log_traffic_type = ACCEPT | ALL_TRAFFIC | REJECT

datatype gateway_service = DYNAMODB | S3

datatype interface_service = XRAY | CLOUDWATCH_LOGS

datatype attribute_type = BINARY | NUMBER | STRING

datatype lambda_runtime = PYTHON_3_8 | PYTHON_3_9 | PYTHON_3_10

datatype tracing = ACTIVE | PASS_THROUGH | DISABLED

datatype bucket_encryption = S3_MANAGED | KMS_MANAGED | KMS | UNENCRYPTED

datatype block_public_access = BLOCK_ALL | BLOCK_ACLS

datatype canary_runtime = SYNTHETICS_PYTHON_SELENIUM_3_0 | SYNTHETICS_NODEJS_PUPPETEER_6_2

datatype principal = AnyPrincipal | AccountPrincipal string | ServicePrincipal string

datatype effect = ALLOW | DENY

datatype duration = Seconds nat | Minutes nat

datatype schedule = Rate duration | Cron string | Once

subsection \<open>Handles, attribute references and strings that contain them\<close>

text \<open>
  A Python variable bound to a construct is a handle: the construct ID under which the
  construct was declared in this stack. An attribute such as \<^verbatim>\<open>demo_table.table_name\<close>
  or \<^verbatim>\<open>api.url\<close> is known only at deployment; the code passes it on as a reference,
  and an f-string that interpolates it is a sequence of literal text and references.
\<close>

type_synonym handle = string

datatype attr = TableName handle | RestApiUrl handle

datatype frag = Lit string | Tok attr

type_synonym tstring = "frag list"

subsection \<open>Properties of the declared constructs\<close>

text \<open>
  A field of option type is a keyword argument of the library's constructor; \<open>None\<close>
  says that the source does not pass it.
\<close>

record subnet_configuration =
  sc_name :: string
  sc_subnet_type :: subnet_type
  sc_cidr_mask :: nat

record subnet_selection =
  sel_subnet_type :: subnet_type

datatype flow_log_destination = To_cloud_watch_logs handle | To_s3 handle

record flow_log =
  fl_destination :: flow_log_destination
  fl_traffic_type :: flow_log_traffic_type

record vpc_props =
  vpc_cidr :: string
  vpc_subnet_configuration :: "subnet_configuration list"
  vpc_flow_logs :: "(string \<times> flow_log) list"

record log_group_props =
  lg_retention :: retention_days
  lg_removal_policy :: removal_policy

record policy_statement =
  ps_effect :: "effect option"
  ps_principals :: "principal list"
  ps_actions :: "string list"
  ps_resources :: "string list"

record gateway_vpc_endpoint_props =
  gw_service :: gateway_service
  gw_vpc :: handle
  gw_policy :: "policy_statement list"

record interface_vpc_endpoint_props =
  if_vpc :: handle
  if_service :: interface_service
  if_subnets :: subnet_selection

record attribute =
  attr_name :: string
  attr_type :: attribute_type

record table_props =
  tbl_partition_key :: attribute
  tbl_sort_key :: "attribute option"
  tbl_table_name :: "string option"
  tbl_point_in_time_recovery :: bool

datatype lambda_code = From_asset string | From_inline_lambda string

record function_props =
  fn_function_name :: "string option"
  fn_runtime :: lambda_runtime
  fn_code :: lambda_code
  fn_handler :: string
  fn_vpc :: handle
  fn_vpc_subnets :: subnet_selection
  fn_memory_size :: nat
  fn_timeout :: duration
  fn_log_retention :: retention_days
  fn_tracing :: tracing
  fn_environment :: "(string \<times> tstring) list"

record access_log_format =
  alf_caller :: bool
  alf_http_method :: bool
  alf_ip :: bool
  alf_protocol :: bool
  alf_request_time :: bool
  alf_resource_path :: bool
  alf_response_length :: bool
  alf_status :: bool
  alf_user :: bool

datatype access_log_destination = LogGroupLogDestination handle

record stage_options =
  so_access_log_destination :: access_log_destination
  so_access_log_format :: access_log_format
  so_tracing_enabled :: bool

record lambda_rest_api_props =
  api_handler :: handle
  api_deploy_options :: stage_options

text \<open>
  A metric is obtained from a construct by one of its metric methods:
  \<^verbatim>\<open>metric_errors\<close> of a function, \<^verbatim>\<open>metric_server_error\<close> and
  \<^verbatim>\<open>metric_client_error\<close> of a REST API, \<^verbatim>\<open>metric_failed\<close> of a canary.
\<close>

datatype metric_kind = Metric_errors | Metric_server_error | Metric_client_error | Metric_failed

record metric =
  metric_of :: handle
  metric_kind :: metric_kind

record alarm_props =
  al_metric :: metric
  al_threshold :: int
  al_evaluation_periods :: int
  al_alarm_description :: string

record bucket_props =
  bk_encryption :: bucket_encryption
  bk_block_public_access :: block_public_access
  bk_removal_policy :: removal_policy
  bk_auto_delete_objects :: bool

datatype canary_code = From_inline tstring

record canary_test =
  ct_code :: canary_code
  ct_handler :: string

record canary_props =
  cn_runtime :: canary_runtime
  cn_test :: canary_test
  cn_artifacts_bucket :: handle
  cn_schedule :: schedule
  cn_start_after_creation :: "bool option"

record trail_props =
  tr_bucket :: handle
  tr_is_multi_region_trail :: bool
  tr_include_global_service_events :: bool

datatype resource =
    Vpc vpc_props
  | LogGroup log_group_props
  | GatewayVpcEndpoint gateway_vpc_endpoint_props
  | InterfaceVpcEndpoint interface_vpc_endpoint_props
  | Table table_props
  | Function function_props
  | LambdaRestApi lambda_rest_api_props
  | Alarm alarm_props
  | Bucket bucket_props
  | Canary canary_props
  | Trail trail_props

subsection \<open>The stack under construction\<close>

text \<open>
  The grant methods of a table: \<^verbatim>\<open>grant_write_data\<close> is the one the source calls.
\<close>

datatype table_grant =
  Grant_read_data | Grant_write_data | Grant_read_write_data | Grant_full_access

record grant =
  gr_kind :: table_grant
  gr_table :: handle
  gr_grantee :: handle

text \<open>
  The exceptions of the library that a call of the constructor can meet: a keyword argument
  the called constructor does not have (Python's \<^verbatim>\<open>TypeError\<close>), a canary handler that
  is not of the form \<^verbatim>\<open>file.function\<close>, and a construct ID already declared in the
  stack.
\<close>

datatype error =
    Unexpected_keyword string
  | Invalid_handler string
  | Duplicate_construct string

text \<open>
  The field \<open>raised\<close> is the exception that ended the constructor, if one did. Once it is
  set, every later statement leaves the stack as it is: this is how the statements after a
  raise are skipped.
\<close>

record stack =
  stack_scope :: "string list"
  stack_construct_id :: string
  stack_kwargs :: "(string \<times> string) list"
  children :: "(string \<times> resource) list"
  grants :: "grant list"
  raised :: "error option"

text \<open>
  \<^verbatim>\<open>super().__init__(scope, construct_id, **kwargs)\<close>: an empty stack. The arguments are
  recorded as they are passed. The checks the library makes on them (the name of the stack,
  its keyword arguments, a construct ID not yet used in the scope) are not in the source
  and are not modelled: the properties below are about a stack whose own construction the
  library has accepted.
\<close>

definition Stack_init :: "string list \<Rightarrow> string \<Rightarrow> (string \<times> string) list \<Rightarrow> stack" where
  "Stack_init scope construct_id kwargs =
     \<lparr>stack_scope = scope, stack_construct_id = construct_id, stack_kwargs = kwargs,
      children = [], grants = [], raised = None\<rparr>"

text \<open>
  The keyword arguments that the constructor of each kind of construct has in the library
  (version 2 of it, as documented; the library is not part of the source). The constructor
  of a canary has \<^verbatim>\<open>start_after_creation\<close> and no \<^verbatim>\<open>enable_auto_start\<close>.
\<close>

fun keyword_names :: "resource \<Rightarrow> string list" where
  "keyword_names (Vpc _) =
     [''availability_zones'', ''cidr'', ''create_internet_gateway'',
      ''default_instance_tenancy'', ''enable_dns_hostnames'', ''enable_dns_support'',
      ''flow_logs'', ''gateway_endpoints'', ''ip_addresses'', ''ip_protocol'',
      ''ipv6_addresses'', ''max_azs'', ''nat_gateway_provider'', ''nat_gateways'',
      ''nat_gateway_subnets'', ''reserved_azs'', ''restrict_default_security_group'',
      ''subnet_configuration'', ''vpc_name'', ''vpn_connections'', ''vpn_gateway'',
      ''vpn_gateway_asn'', ''vpn_route_propagation'']"
| "keyword_names (LogGroup _) =
     [''data_protection_policy'', ''encryption_key'', ''field_index_policies'',
      ''log_group_class'', ''log_group_name'', ''removal_policy'', ''retention'']"
| "keyword_names (GatewayVpcEndpoint _) = [''vpc'', ''service'', ''subnets'']"
| "keyword_names (InterfaceVpcEndpoint _) =
     [''vpc'', ''service'', ''dns_record_ip_type'', ''ip_address_type'',
      ''lookup_supported_azs'', ''open'', ''private_dns_enabled'', ''security_groups'',
      ''subnets'']"
| "keyword_names (Table _) =
     [''partition_key'', ''sort_key'', ''billing_mode'', ''contributor_insights_enabled'',
      ''contributor_insights_specification'', ''deletion_protection'', ''encryption'',
      ''encryption_key'', ''import_source'', ''kinesis_precision_timestamp'',
      ''kinesis_stream'', ''max_read_request_units'', ''max_write_request_units'',
      ''point_in_time_recovery'', ''point_in_time_recovery_specification'',
      ''read_capacity'', ''removal_policy'', ''replica_removal_policy'',
      ''replication_regions'', ''replication_timeout'', ''resource_policy'', ''stream'',
      ''table_class'', ''table_name'', ''time_to_live_attribute'',
      ''wait_for_replication_to_finish'', ''warm_throughput'', ''write_capacity'']"
| "keyword_names (Function _) =
     [''code'', ''handler'', ''runtime'', ''adot_instrumentation'',
      ''allow_all_ipv6_outbound'', ''allow_all_outbound'', ''allow_public_subnet'',
      ''application_log_level'', ''application_log_level_v2'', ''architecture'',
      ''code_signing_config'', ''current_version_options'', ''dead_letter_queue'',
      ''dead_letter_queue_enabled'', ''dead_letter_topic'', ''description'',
      ''environment'', ''environment_encryption'', ''ephemeral_storage_size'', ''events'',
      ''filesystem'', ''function_name'', ''initial_policy'', ''insights_version'',
      ''ipv6_allowed_for_dual_stack'', ''layers'', ''log_format'', ''logging_format'',
      ''log_group'', ''log_retention'', ''log_retention_retry_options'',
      ''log_retention_role'', ''max_event_age'', ''memory_size'', ''on_failure'',
      ''on_success'', ''params_and_secrets'', ''profiling'', ''profiling_group'',
      ''recursive_loop'', ''reserved_concurrent_executions'', ''retry_attempts'', ''role'',
      ''runtime_management_mode'', ''security_groups'', ''snap_start'',
      ''system_log_level'', ''system_log_level_v2'', ''timeout'', ''tracing'', ''vpc'',
      ''vpc_subnets'']"
| "keyword_names (LambdaRestApi _) =
     [''handler'', ''integration_options'', ''proxy'', ''default_cors_preflight_options'',
      ''default_integration'', ''default_method_options'', ''api_key_source_type'',
      ''binary_media_types'', ''clone_from'', ''cloud_watch_role'',
      ''cloud_watch_role_removal_policy'', ''deploy'', ''deploy_options'', ''description'',
      ''disable_execute_api_endpoint'', ''domain_name'', ''endpoint_configuration'',
      ''endpoint_export_name'', ''endpoint_types'', ''fail_on_warnings'',
      ''min_compression_size'', ''minimum_compression_size'', ''parameters'', ''policy'',
      ''rest_api_name'', ''retain_deployments'']"
| "keyword_names (Alarm _) =
     [''metric'', ''evaluation_periods'', ''threshold'', ''actions_enabled'',
      ''alarm_description'', ''alarm_name'', ''comparison_operator'',
      ''datapoints_to_alarm'', ''evaluate_low_sample_count_percentile'',
      ''treat_missing_data'']"
| "keyword_names (Bucket _) =
     [''access_control'', ''auto_delete_objects'', ''block_public_access'',
      ''bucket_key_enabled'', ''bucket_name'', ''cors'', ''encryption'', ''encryption_key'',
      ''enforce_ssl'', ''event_bridge_enabled'', ''intelligent_tiering_configurations'',
      ''inventories'', ''lifecycle_rules'', ''metrics'', ''minimum_tls_version'',
      ''notifications_handler_role'', ''notifications_skip_destination_validation'',
      ''object_lock_default_retention'', ''object_lock_enabled'', ''object_ownership'',
      ''public_read_access'', ''removal_policy'', ''replication_role'',
      ''replication_rules'', ''server_access_logs_bucket'', ''server_access_logs_prefix'',
      ''target_object_key_format'', ''transfer_acceleration'',
      ''transition_default_minimum_object_size'', ''versioned'',
      ''website_error_document'', ''website_index_document'', ''website_redirect'',
      ''website_routing_rules'']"
| "keyword_names (Canary _) =
     [''runtime'', ''test'', ''active_tracing'', ''artifacts_bucket_lifecycle_rules'',
      ''artifacts_bucket_location'', ''artifact_s3_encryption_mode'',
      ''artifact_s3_kms_key'', ''canary_name'', ''cleanup'', ''dry_run_and_update'',
      ''enable_auto_delete_lambdas'', ''environment_variables'',
      ''failure_retention_period'', ''max_retries'', ''memory'',
      ''provisioned_resource_cleanup'', ''resources_to_replicate_tags'', ''role'',
      ''schedule'', ''security_groups'', ''start_after_creation'',
      ''success_retention_period'', ''time_to_live'', ''timeout'', ''vpc'',
      ''vpc_subnets'']"
| "keyword_names (Trail _) =
     [''bucket'', ''cloud_watch_log_group'', ''cloud_watch_logs_retention'',
      ''enable_file_validation'', ''encryption_key'', ''include_global_service_events'',
      ''insight_types'', ''is_multi_region_trail'', ''is_organization_trail'',
      ''management_events'', ''org_id'', ''s3_key_prefix'', ''send_to_cloud_watch_logs'',
      ''sns_topic'', ''trail_name'']"

text \<open>
  A constructor call \<^verbatim>\<open>C(self, id, k1=..., k2=...)\<close>, with the names of the keyword
  arguments the source passes and the construct they describe. The call raises on the
  first keyword the constructor does not have, then on a construct ID that the stack has
  already; otherwise it declares the construct. It returns the handle in every case: after
  a raise the handle is not used, since nothing more is executed.
\<close>

definition new_construct ::
  "stack \<Rightarrow> string \<Rightarrow> string list \<Rightarrow> resource \<Rightarrow> handle \<times> stack" where
  "new_construct self i kws r =
     (if raised self = None then
        (case filter (\<lambda>k. k \<notin> set (keyword_names r)) kws of
           k # _ \<Rightarrow> (i, self\<lparr>raised := Some (Unexpected_keyword k)\<rparr>)
         | [] \<Rightarrow>
             if i \<in> set (map fst (children self))
             then (i, self\<lparr>raised := Some (Duplicate_construct i)\<rparr>)
             else (i, self\<lparr>children := children self @ [(i, r)]\<rparr>))
      else (i, self))"

text \<open>
  \<^verbatim>\<open>synthetics.Test.custom(code=..., handler=...)\<close>: the library accepts a handler of
  the form \<^verbatim>\<open>file.function\<close> only, and raises on any other. Of that form the check
  here keeps the two non-empty parts around one dot; which characters each part may hold
  is left out.
\<close>

definition valid_handler :: "string \<Rightarrow> bool" where
  "valid_handler h =
     (let file = takeWhile (\<lambda>c. c \<noteq> CHR ''.'') h;
          func = drop (length file + 1) h
      in file \<noteq> [] \<and> func \<noteq> [] \<and> CHR ''.'' \<notin> set func)"

definition Test_custom :: "stack \<Rightarrow> canary_code \<Rightarrow> string \<Rightarrow> canary_test \<times> stack" where
  "Test_custom self code handler =
     (\<lparr>ct_code = code, ct_handler = handler\<rparr>,
      if raised self = None \<and> \<not> valid_handler handler
      then self\<lparr>raised := Some (Invalid_handler handler)\<rparr>
      else self)"

text \<open>
  A mutating method changes the construct its handle names, where it was declared. In the
  source the method is called on the object itself, so the construct is there and of the
  kind that has the method; the other branches below are never taken by the constructor,
  whose construct IDs are distinct (\<open>construct_ids_distinct\<close>). After a raise the
  method is not executed.
\<close>

fun update_child ::
  "handle \<Rightarrow> (resource \<Rightarrow> resource) \<Rightarrow> (string \<times> resource) list \<Rightarrow> (string \<times> resource) list" where
  "update_child h f [] = []"
| "update_child h f ((i, r) # rs) =
     (if i = h then (i, f r) # rs else (i, r) # update_child h f rs)"

definition add_flow_log :: "stack \<Rightarrow> handle \<Rightarrow> string \<Rightarrow> flow_log \<Rightarrow> stack" where
  "add_flow_log self v i fl =
     (if raised self = None then
        self\<lparr>children := update_child v
          (\<lambda>r. case r of
                  Vpc p \<Rightarrow> Vpc (p\<lparr>vpc_flow_logs := vpc_flow_logs p @ [(i, fl)]\<rparr>)
                | _ \<Rightarrow> r)
          (children self)\<rparr>
      else self)"

definition add_to_policy :: "stack \<Rightarrow> handle \<Rightarrow> policy_statement \<Rightarrow> stack" where
  "add_to_policy self e st =
     (if raised self = None then
        self\<lparr>children := update_child e
          (\<lambda>r. case r of
                  GatewayVpcEndpoint p \<Rightarrow>
                    GatewayVpcEndpoint (p\<lparr>gw_policy := gw_policy p @ [st]\<rparr>)
                | _ \<Rightarrow> r)
          (children self)\<rparr>
      else self)"

definition add_environment :: "stack \<Rightarrow> handle \<Rightarrow> string \<Rightarrow> tstring \<Rightarrow> stack" where
  "add_environment self f k v =
     (if raised self = None then
        self\<lparr>children := update_child f
          (\<lambda>r. case r of
                  Function p \<Rightarrow>
                    Function (p\<lparr>fn_environment := fn_environment p @ [(k, v)]\<rparr>)
                | _ \<Rightarrow> r)
          (children self)\<rparr>
      else self)"

definition grant_write_data :: "stack \<Rightarrow> handle \<Rightarrow> handle \<Rightarrow> stack" where
  "grant_write_data self t grantee =
     (if raised self = None then
        self\<lparr>grants := grants self @
          [\<lparr>gr_kind = Grant_write_data, gr_table = t, gr_grantee = grantee\<rparr>]\<rparr>
      else self)"

text \<open>The attributes and metric methods the source reads from its handles.\<close>

definition table_name :: "handle \<Rightarrow> tstring" where
  "table_name t = [Tok (TableName t)]"

definition url :: "handle \<Rightarrow> tstring" where
  "url a = [Tok (RestApiUrl a)]"

definition metric_errors :: "handle \<Rightarrow> metric" where
  "metric_errors f = \<lparr>metric_of = f, metric_kind = Metric_errors\<rparr>"

definition metric_server_error :: "handle \<Rightarrow> metric" where
  "metric_server_error a = \<lparr>metric_of = a, metric_kind = Metric_server_error\<rparr>"

definition metric_client_error :: "handle \<Rightarrow> metric" where
  "metric_client_error a = \<lparr>metric_of = a, metric_kind = Metric_client_error\<rparr>"

definition metric_failed :: "handle \<Rightarrow> metric" where
  "metric_failed c = \<lparr>metric_of = c, metric_kind = Metric_failed\<rparr>"

subsection \<open>The module\<close>

text \<open>
  The module defines one constant. It imports \<^verbatim>\<open>os\<close> and never uses it.
\<close>

definition TABLE_NAME :: string where
  "TABLE_NAME = ''demo_table''"

text \<open>
  The inline script of the canary is an f-string: the text before \<^verbatim>\<open>{api.url}\<close>, the
  value of \<^verbatim>\<open>api.url\<close>, and the text after it, where \<^verbatim>\<open>{{\<close> and \<^verbatim>\<open>}}\<close> of the
  source stand for one brace each. One line of the source is one line here.
\<close>

definition canary_script_head :: string where
  \<open>canary_script_head =
     ''\<newline>'' @
     ''import json\<newline>'' @
     ''from aws_synthetics.selenium import synthetics_webdriver as webdriver\<newline>'' @
     ''from aws_synthetics.common import synthetics_logger as logger\<newline>'' @
     ''from aws_synthetics.common import synthetics_configuration\<newline>'' @
     ''\<newline>'' @
     ''def handler(event, context):\<newline>'' @
     ''    logger.info("Starting canary test")\<newline>'' @
     ''    url = "''\<close>

definition canary_script_tail :: string where
  \<open>canary_script_tail =
     ''"\<newline>'' @
     ''    \<newline>'' @
     ''    # Configure synthetics\<newline>'' @
     ''    synthetics_configuration.set_config({\<newline>'' @
     ''        "screenshot_on_step_start": False,\<newline>'' @
     ''        "screenshot_on_step_success": False,\<newline>'' @
     ''        "screenshot_on_step_failure": True\<newline>'' @
     ''    })\<newline>'' @
     ''    \<newline>'' @
     ''    browser = webdriver.Chrome()\<newline>'' @
     ''    browser.set_page_load_timeout(30)\<newline>'' @
     ''    \<newline>'' @
     ''    try:\<newline>'' @
     ''        browser.get(url)\<newline>'' @
     ''        logger.info(f"Successfully loaded {url}")\<newline>'' @
     ''        logger.info(f"Response status: {browser.title}")\<newline>'' @
     ''    finally:\<newline>'' @
     ''        browser.quit()\<newline>'' @
     ''    \<newline>'' @
     ''    logger.info("Canary test completed successfully")\<newline>'' @
     ''    return {"statusCode": 200}\<newline>'' @
     ''                ''\<close>

definition canary_script :: "tstring \<Rightarrow> tstring" where
  "canary_script api_url = [Lit canary_script_head] @ api_url @ [Lit canary_script_tail]"

subsection \<open>The constructor of the stack\<close>

text \<open>
  \<^verbatim>\<open>ApigwHttpApiLambdaDynamodbPythonCdkStack.__init__(self, scope, construct_id, **kwargs)\<close>,
  statement by statement. The name \<open>api_hanlder\<close> is the source's. The arguments of a
  call are evaluated before the call, so \<^verbatim>\<open>Test.custom\<close> is evaluated before the
  constructor of the canary is called.
\<close>

definition init :: "string list \<Rightarrow> string \<Rightarrow> (string \<times> string) list \<Rightarrow> stack" where
  "init scope construct_id kwargs =
    (let self = Stack_init scope construct_id kwargs;
         (vpc, self) = new_construct self ''Ingress''
           [''cidr'', ''subnet_configuration'']
           (Vpc \<lparr>vpc_cidr = ''10.1.0.0/16'',
                 vpc_subnet_configuration =
                   [\<lparr>sc_name = ''Private-Subnet'', sc_subnet_type = PRIVATE_ISOLATED,
                     sc_cidr_mask = 24\<rparr>],
                 vpc_flow_logs = []\<rparr>);
         (vpc_flow_log_group, self) = new_construct self ''VpcFlowLogs''
           [''retention'', ''removal_policy'']
           (LogGroup \<lparr>lg_retention = ONE_YEAR, lg_removal_policy = DESTROY\<rparr>);
         self = add_flow_log self vpc ''FlowLog''
           \<lparr>fl_destination = To_cloud_watch_logs vpc_flow_log_group,
            fl_traffic_type = ALL_TRAFFIC\<rparr>;
         (dynamo_db_endpoint, self) = new_construct self ''DynamoDBVpce''
           [''service'', ''vpc'']
           (GatewayVpcEndpoint \<lparr>gw_service = DYNAMODB, gw_vpc = vpc, gw_policy = []\<rparr>);
         self = add_to_policy self dynamo_db_endpoint
           \<lparr>ps_effect = None,
            ps_principals = [AnyPrincipal],
            ps_actions =
              [''dynamodb:DescribeStream'',
               ''dynamodb:DescribeTable'',
               ''dynamodb:Get*'',
               ''dynamodb:Query'',
               ''dynamodb:Scan'',
               ''dynamodb:CreateTable'',
               ''dynamodb:Delete*'',
               ''dynamodb:Update*'',
               ''dynamodb:PutItem''],
            ps_resources = [''*'']\<rparr>;
         (_, self) = new_construct self ''XRayVpce''
           [''vpc'', ''service'', ''subnets'']
           (InterfaceVpcEndpoint
              \<lparr>if_vpc = vpc, if_service = XRAY,
               if_subnets = \<lparr>sel_subnet_type = PRIVATE_ISOLATED\<rparr>\<rparr>);
         (demo_table, self) = new_construct self TABLE_NAME
           [''partition_key'', ''point_in_time_recovery'']
           (Table \<lparr>tbl_partition_key = \<lparr>attr_name = ''id'', attr_type = STRING\<rparr>,
                   tbl_sort_key = None,
                   tbl_table_name = None,
                   tbl_point_in_time_recovery = True\<rparr>);
         (api_hanlder, self) = new_construct self ''ApiHandler''
           [''function_name'', ''runtime'', ''code'', ''handler'', ''vpc'', ''vpc_subnets'',
            ''memory_size'', ''timeout'', ''log_retention'', ''tracing'']
           (Function \<lparr>fn_function_name = Some ''apigw_handler'',
                      fn_runtime = PYTHON_3_9,
                      fn_code = From_asset ''lambda/apigw-handler'',
                      fn_handler = ''index.handler'',
                      fn_vpc = vpc,
                      fn_vpc_subnets = \<lparr>sel_subnet_type = PRIVATE_ISOLATED\<rparr>,
                      fn_memory_size = 1024,
                      fn_timeout = Minutes 5,
                      fn_log_retention = ONE_YEAR,
                      fn_tracing = ACTIVE,
                      fn_environment = []\<rparr>);
         self = grant_write_data self demo_table api_hanlder;
         self = add_environment self api_hanlder ''TABLE_NAME'' (table_name demo_table);
         (api_log_group, self) = new_construct self ''ApiGatewayAccessLogs''
           [''retention'', ''removal_policy'']
           (LogGroup \<lparr>lg_retention = ONE_YEAR, lg_removal_policy = DESTROY\<rparr>);
         (api, self) = new_construct self ''Endpoint''
           [''handler'', ''deploy_options'']
           (LambdaRestApi
              \<lparr>api_handler = api_hanlder,
               api_deploy_options =
                 \<lparr>so_access_log_destination = LogGroupLogDestination api_log_group,
                  so_access_log_format =
                    \<lparr>alf_caller = True,
                     alf_http_method = True,
                     alf_ip = True,
                     alf_protocol = True,
                     alf_request_time = True,
                     alf_resource_path = True,
                     alf_response_length = True,
                     alf_status = True,
                     alf_user = True\<rparr>,
                  so_tracing_enabled = True\<rparr>\<rparr>);
         (_, self) = new_construct self ''LambdaErrorAlarm''
           [''metric'', ''threshold'', ''evaluation_periods'', ''alarm_description'']
           (Alarm \<lparr>al_metric = metric_errors api_hanlder,
                   al_threshold = 1,
                   al_evaluation_periods = 1,
                   al_alarm_description = ''Alert when Lambda function errors occur''\<rparr>);
         (_, self) = new_construct self ''ApiGateway5xxAlarm''
           [''metric'', ''threshold'', ''evaluation_periods'', ''alarm_description'']
           (Alarm \<lparr>al_metric = metric_server_error api,
                   al_threshold = 5,
                   al_evaluation_periods = 2,
                   al_alarm_description = ''Alert when API Gateway 5xx errors occur''\<rparr>);
         (_, self) = new_construct self ''ApiGateway4xxAlarm''
           [''metric'', ''threshold'', ''evaluation_periods'', ''alarm_description'']
           (Alarm \<lparr>al_metric = metric_client_error api,
                   al_threshold = 10,
                   al_evaluation_periods = 2,
                   al_alarm_description =
                     ''Alert when API Gateway 4xx errors exceed threshold''\<rparr>);
         (canary_bucket, self) = new_construct self ''CanaryArtifactsBucket''
           [''encryption'', ''block_public_access'', ''removal_policy'',
            ''auto_delete_objects'']
           (Bucket \<lparr>bk_encryption = S3_MANAGED,
                    bk_block_public_access = BLOCK_ALL,
                    bk_removal_policy = DESTROY,
                    bk_auto_delete_objects = True\<rparr>);
         (test, self) = Test_custom self (From_inline (canary_script (url api))) ''handler'';
         (canary, self) = new_construct self ''ApiCanary''
           [''runtime'', ''test'', ''artifacts_bucket_location'', ''schedule'',
            ''enable_auto_start'']
           (Canary \<lparr>cn_runtime = SYNTHETICS_PYTHON_SELENIUM_3_0,
                    cn_test = test,
                    cn_artifacts_bucket = canary_bucket,
                    cn_schedule = Rate (Minutes 5),
                    cn_start_after_creation = None\<rparr>);
         (_, self) = new_construct self ''CanaryFailureAlarm''
           [''metric'', ''threshold'', ''evaluation_periods'', ''alarm_description'']
           (Alarm \<lparr>al_metric = metric_failed canary,
                   al_threshold = 1,
                   al_evaluation_periods = 1,
                   al_alarm_description = ''Alert when synthetic canary fails''\<rparr>);
         (trail_bucket, self) = new_construct self ''CloudTrailBucket''
           [''encryption'', ''block_public_access'', ''removal_policy'',
            ''auto_delete_objects'']
           (Bucket \<lparr>bk_encryption = S3_MANAGED,
                    bk_block_public_access = BLOCK_ALL,
                    bk_removal_policy = DESTROY,
                    bk_auto_delete_objects = True\<rparr>);
         (_, self) = new_construct self ''CloudTrail''
           [''bucket'', ''is_multi_region_trail'', ''include_global_service_events'']
           (Trail \<lparr>tr_bucket = trail_bucket,
                   tr_is_multi_region_trail = True,
                   tr_include_global_service_events = True\<rparr>)
     in self)"

subsection \<open>Reading a declared stack\<close>

text \<open>
  The construct declared under a construct ID, and the constructs of each kind in the
  order of their declaration.
\<close>

definition lookup :: "stack \<Rightarrow> handle \<Rightarrow> resource option" where
  "lookup s h = map_of (children s) h"

definition vpcs :: "stack \<Rightarrow> (string \<times> vpc_props) list" where
  "vpcs s = [(i, p). (i, Vpc p) \<leftarrow> children s]"

definition gateway_endpoints :: "stack \<Rightarrow> (string \<times> gateway_vpc_endpoint_props) list" where
  "gateway_endpoints s = [(i, p). (i, GatewayVpcEndpoint p) \<leftarrow> children s]"

definition tables :: "stack \<Rightarrow> (string \<times> table_props) list" where
  "tables s = [(i, p). (i, Table p) \<leftarrow> children s]"

definition lambda_functions :: "stack \<Rightarrow> (string \<times> function_props) list" where
  "lambda_functions s = [(i, p). (i, Function p) \<leftarrow> children s]"

definition rest_apis :: "stack \<Rightarrow> (string \<times> lambda_rest_api_props) list" where
  "rest_apis s = [(i, p). (i, LambdaRestApi p) \<leftarrow> children s]"

definition alarms :: "stack \<Rightarrow> (string \<times> alarm_props) list" where
  "alarms s = [(i, p). (i, Alarm p) \<leftarrow> children s]"

definition canaries :: "stack \<Rightarrow> (string \<times> canary_props) list" where
  "canaries s = [(i, p). (i, Canary p) \<leftarrow> children s]"

text \<open>
  The effect of a policy statement: the library's default, when none is passed, is to allow.
\<close>

definition statement_effect :: "policy_statement \<Rightarrow> effect" where
  "statement_effect st = (case ps_effect st of None \<Rightarrow> ALLOW | Some e \<Rightarrow> e)"

text \<open>The key schema a table declaration gives: the partition key, then the sort key if any.\<close>

definition key_attributes :: "table_props \<Rightarrow> attribute list" where
  "key_attributes t =
     tbl_partition_key t # (case tbl_sort_key t of None \<Rightarrow> [] | Some a \<Rightarrow> [a])"

text \<open>
  A metric resolves in a stack when its handle names a construct declared there, of the
  kind that has the metric method.
\<close>

fun has_metric :: "resource \<Rightarrow> metric_kind \<Rightarrow> bool" where
  "has_metric (Function _) Metric_errors = True"
| "has_metric (LambdaRestApi _) Metric_server_error = True"
| "has_metric (LambdaRestApi _) Metric_client_error = True"
| "has_metric (Canary _) Metric_failed = True"
| "has_metric _ _ = False"

definition metric_resolves :: "stack \<Rightarrow> metric \<Rightarrow> bool" where
  "metric_resolves s m =
     (case lookup s (metric_of m) of None \<Rightarrow> False | Some r \<Rightarrow> has_metric r (metric_kind m))"

text \<open>The arguments of one instantiation, for concrete evaluations.\<close>

definition stack0 :: stack where
  "stack0 = init [] ''ApigwHttpApiLambdaDynamodbPythonCdkStack'' []"

section \<open>Properties of the declared stack\<close>

text \<open>
  Every property below holds for all arguments of the constructor: it is proved by running
  the constructor, statement by statement.
\<close>

lemmas build_simps =
  init_def Stack_init_def new_construct_def Test_custom_def valid_handler_def
  add_flow_log_def add_to_policy_def add_environment_def grant_write_data_def
  table_name_def url_def metric_errors_def metric_server_error_def metric_client_error_def
  metric_failed_def canary_script_def TABLE_NAME_def

subsection \<open>Where the constructor ends\<close>

text \<open>
  The constructor raises in the statement that declares the canary: the handler
  \<^verbatim>\<open>handler\<close> passed to \<^verbatim>\<open>Test.custom\<close> is not of the form \<^verbatim>\<open>file.function\<close>.
\<close>

lemma init_raises:
  "raised (init scope construct_id kwargs) = Some (Invalid_handler ''handler'')"
  by (simp add: build_simps)

text \<open>
  Were the handler accepted, the call of the constructor of the canary would raise in its
  turn, on the keyword \<^verbatim>\<open>enable_auto_start\<close>.
\<close>

lemma canary_keyword_refused:
  "raised s = None \<Longrightarrow>
   raised (snd (new_construct s ''ApiCanary''
     [''runtime'', ''test'', ''artifacts_bucket_location'', ''schedule'',
      ''enable_auto_start'']
     (Canary c))) = Some (Unexpected_keyword ''enable_auto_start'')"
  by (simp add: new_construct_def)

text \<open>
  The construct IDs of the stack when the constructor ends, in the order of declaration:
  the twelve constructs declared before the canary. No ID is declared twice, so a handle
  names one construct.
\<close>

lemma construct_ids:
  "map fst (children (init scope construct_id kwargs)) =
     [''Ingress'', ''VpcFlowLogs'', ''DynamoDBVpce'', ''XRayVpce'', ''demo_table'',
      ''ApiHandler'', ''ApiGatewayAccessLogs'', ''Endpoint'', ''LambdaErrorAlarm'',
      ''ApiGateway5xxAlarm'', ''ApiGateway4xxAlarm'', ''CanaryArtifactsBucket'']"
  by (simp add: build_simps)

lemma construct_ids_distinct:
  "distinct (map fst (children (init scope construct_id kwargs)))"
  unfolding construct_ids by simp

text \<open>The flow log and the arguments of the constructor are recorded as passed.\<close>

lemma stack_arguments:
  "stack_scope (init scope construct_id kwargs) = scope
   \<and> stack_construct_id (init scope construct_id kwargs) = construct_id
   \<and> stack_kwargs (init scope construct_id kwargs) = kwargs"
  by (simp add: build_simps)

lemma vpc_flow_log:
  "map (vpc_flow_logs \<circ> snd) (vpcs (init scope construct_id kwargs)) =
     [[(''FlowLog'',
        \<lparr>fl_destination = To_cloud_watch_logs ''VpcFlowLogs'',
         fl_traffic_type = ALL_TRAFFIC\<rparr>)]]"
  by (simp add: vpcs_def build_simps)

subsection \<open>The policy of the gateway endpoint\<close>

text \<open>
  C1. The stack declares one gateway endpoint, for the table service, and its policy is
  one statement: it allows, for any principal and on every resource, the nine action
  patterns of the source, each once, and no other.
\<close>

theorem endpoint_policy_allow_list:
  "\<exists>e st. gateway_endpoints (init scope construct_id kwargs) = [(''DynamoDBVpce'', e)]
      \<and> gw_service e = DYNAMODB
      \<and> gw_policy e = [st]
      \<and> statement_effect st = ALLOW
      \<and> ps_principals st = [AnyPrincipal]
      \<and> ps_resources st = [''*'']
      \<and> set (ps_actions st) =
          {''dynamodb:DescribeStream'', ''dynamodb:DescribeTable'', ''dynamodb:Get*'',
           ''dynamodb:Query'', ''dynamodb:Scan'', ''dynamodb:CreateTable'',
           ''dynamodb:Delete*'', ''dynamodb:Update*'', ''dynamodb:PutItem''}
      \<and> distinct (ps_actions st)"
  by (simp add: gateway_endpoints_def statement_effect_def build_simps)

subsection \<open>The grant on the table\<close>

text \<open>
  C2. The grants of the stack are one grant: write access to the data of the table
  declared as \<open>TABLE_NAME\<close>, for the function declared as \<open>ApiHandler\<close>. No read
  grant and no broader grant is declared.
\<close>

theorem only_write_grant:
  "grants (init scope construct_id kwargs) =
     [\<lparr>gr_kind = Grant_write_data, gr_table = TABLE_NAME, gr_grantee = ''ApiHandler''\<rparr>]
   \<and> (\<exists>t. lookup (init scope construct_id kwargs) TABLE_NAME = Some (Table t))
   \<and> (\<exists>f. lookup (init scope construct_id kwargs) ''ApiHandler'' = Some (Function f))"
  by (simp add: lookup_def build_simps)

subsection \<open>Network placement\<close>

text \<open>
  C3. The stack declares one network. It configures at least one subnet, every subnet it
  configures is of the isolated type, and the one function of the stack is placed in that
  network with a subnet selection of the isolated type.
\<close>

theorem isolated_placement:
  "\<exists>v f. vpcs (init scope construct_id kwargs) = [(''Ingress'', v)]
      \<and> vpc_subnet_configuration v \<noteq> []
      \<and> (\<forall>c \<in> set (vpc_subnet_configuration v). sc_subnet_type c = PRIVATE_ISOLATED)
      \<and> lambda_functions (init scope construct_id kwargs) = [(''ApiHandler'', f)]
      \<and> fn_vpc f = ''Ingress''
      \<and> sel_subnet_type (fn_vpc_subnets f) = PRIVATE_ISOLATED"
  by (simp add: vpcs_def lambda_functions_def build_simps)

text \<open>The subnet configuration named \<open>Private-Subnet\<close> is one of those the property covers.\<close>

theorem isolated_placement_witness:
  "\<exists>v f. vpcs stack0 = [(''Ingress'', v)]
      \<and> \<lparr>sc_name = ''Private-Subnet'', sc_subnet_type = PRIVATE_ISOLATED, sc_cidr_mask = 24\<rparr>
            \<in> set (vpc_subnet_configuration v)
      \<and> map sc_subnet_type (vpc_subnet_configuration v) = [PRIVATE_ISOLATED]
      \<and> lambda_functions stack0 = [(''ApiHandler'', f)]
      \<and> sel_subnet_type (fn_vpc_subnets f) = PRIVATE_ISOLATED"
  using isolated_placement [of "[]" "''ApigwHttpApiLambdaDynamodbPythonCdkStack''" "[]"]
  by (simp add: stack0_def vpcs_def lambda_functions_def build_simps)

subsection \<open>The table\<close>

text \<open>
  C4. The stack declares one table. Its key schema is one attribute, the partition key
  \<open>id\<close> of string type; no sort key is passed; point-in-time recovery is enabled.
\<close>

theorem table_key_schema:
  "\<exists>t. tables (init scope construct_id kwargs) = [(TABLE_NAME, t)]
      \<and> tbl_partition_key t = \<lparr>attr_name = ''id'', attr_type = STRING\<rparr>
      \<and> tbl_sort_key t = None
      \<and> key_attributes t = [\<lparr>attr_name = ''id'', attr_type = STRING\<rparr>]
      \<and> tbl_point_in_time_recovery t"
  by (simp add: tables_def key_attributes_def build_simps)

subsection \<open>The access log of the REST API\<close>

text \<open>
  C5. The stack declares one REST API, and the access-log format of its stage has each of
  the nine standard fields switched on: caller, HTTP method, IP, protocol, request time,
  resource path, response length, status and user.
\<close>

theorem access_log_fields:
  "\<exists>a. rest_apis (init scope construct_id kwargs) = [(''Endpoint'', a)]
      \<and> so_access_log_format (api_deploy_options a) =
          \<lparr>alf_caller = True, alf_http_method = True, alf_ip = True, alf_protocol = True,
           alf_request_time = True, alf_resource_path = True, alf_response_length = True,
           alf_status = True, alf_user = True\<rparr>"
  by (simp add: rest_apis_def build_simps)

subsection \<open>The alarms\<close>

text \<open>
  C6. The claim is of four alarms, the fourth on the failures of the canary. The
  constructor raises before it declares the canary: the stack has three alarms, on the
  errors of the function and on the server errors and the client errors of the REST API,
  with thresholds 1, 5, 10 and evaluation periods 1, 2, 2, each on a metric that resolves
  in the stack. The alarm on the failures of the canary is not declared, and a metric of
  \<open>ApiCanary\<close> does not resolve.
\<close>

theorem canary_alarm_not_declared:
  "raised (init scope construct_id kwargs) = Some (Invalid_handler ''handler'')
   \<and> map (\<lambda>(i, a). (i, al_metric a, al_threshold a, al_evaluation_periods a,
                     metric_resolves (init scope construct_id kwargs) (al_metric a)))
         (alarms (init scope construct_id kwargs)) =
       [(''LambdaErrorAlarm'',
           \<lparr>metric_of = ''ApiHandler'', metric_kind = Metric_errors\<rparr>, 1, 1, True),
        (''ApiGateway5xxAlarm'',
           \<lparr>metric_of = ''Endpoint'', metric_kind = Metric_server_error\<rparr>, 5, 2, True),
        (''ApiGateway4xxAlarm'',
           \<lparr>metric_of = ''Endpoint'', metric_kind = Metric_client_error\<rparr>, 10, 2, True)]
   \<and> lookup (init scope construct_id kwargs) ''CanaryFailureAlarm'' = None
   \<and> \<not> metric_resolves (init scope construct_id kwargs) (metric_failed ''ApiCanary'')"
  by (simp add: alarms_def metric_resolves_def lookup_def build_simps)

subsection \<open>The name of the table\<close>

text \<open>
  C7, as amended. The constant \<open>TABLE_NAME\<close>, \<open>demo_table\<close>, is the construct ID of
  the one table of the stack and nothing more: the declaration passes no physical table
  name, so none is fixed by the stack.
\<close>

theorem table_name_construct_id_only:
  "map (\<lambda>(i, t). (i, tbl_table_name t)) (tables (init scope construct_id kwargs)) =
     [(TABLE_NAME, None)]
   \<and> TABLE_NAME = ''demo_table''"
  by (simp add: tables_def build_simps)

text \<open>
  C7 as stated, that \<open>demo_table\<close> is both the construct ID of the table and its physical
  name, fails on a concrete instantiation.
\<close>

theorem table_name_reused_counterexample:
  "\<not> (map fst (tables stack0) = [TABLE_NAME]
      \<and> map (tbl_table_name \<circ> snd) (tables stack0) = [Some TABLE_NAME])"
  by (simp add: stack0_def tables_def build_simps)

subsection \<open>The canary\<close>

text \<open>
  C8. The claim is of a canary declared by the stack. The constructor raises in the
  statement that is to declare it: \<^verbatim>\<open>Test.custom\<close> refuses the handler
  \<^verbatim>\<open>handler\<close>, and \<^verbatim>\<open>enable_auto_start\<close> is not a keyword of the constructor of a
  canary. The stack has no canary, and nothing is declared under \<open>ApiCanary\<close>.
\<close>

theorem canary_not_declared:
  "raised (init scope construct_id kwargs) = Some (Invalid_handler ''handler'')
   \<and> \<not> valid_handler ''handler''
   \<and> ''enable_auto_start'' \<notin> set (keyword_names (Canary c))
   \<and> canaries (init scope construct_id kwargs) = []
   \<and> lookup (init scope construct_id kwargs) ''ApiCanary'' = None"
  by (simp add: canaries_def lookup_def build_simps)

subsection \<open>The name of the function\<close>

text \<open>
  C10. The function is declared with the fixed physical name \<open>apigw_handler\<close>, whatever
  the arguments of the constructor, while the table is declared with no physical name; and
  the one environment variable of the function, \<open>TABLE_NAME\<close>, is a reference to the
  name of the table, not the literal \<open>demo_table\<close>.
\<close>

theorem function_name_fixed:
  "\<exists>f t. lookup (init scope construct_id kwargs) ''ApiHandler'' = Some (Function f)
      \<and> fn_function_name f = Some ''apigw_handler''
      \<and> lookup (init scope construct_id kwargs) TABLE_NAME = Some (Table t)
      \<and> tbl_table_name t = None
      \<and> fn_environment f = [(''TABLE_NAME'', [Tok (TableName TABLE_NAME)])]
      \<and> [Tok (TableName TABLE_NAME)] \<noteq> [Lit ''demo_table'']"
  by (simp add: lookup_def build_simps)

end
